theory Spec2Isabelle
  imports Main
begin

section \<open>The workflow host client of the trigger SDK\<close>

text \<open>
  A shallow embedding of \<^verbatim>\<open>packages/trigger-sdk/src/client.ts\<close>: the class
  \<^verbatim>\<open>TriggerClient\<close>, its pending-callback maps, the handlers it installs on the RPC
  layer, the context operations it hands to the user's workflow function, and the
  retrying \<^verbatim>\<open>#send\<close> wrapper.

  The client is asynchronous JavaScript. An \<^verbatim>\<open>async\<close> function is a state
  transformer over the client that returns the state of the promise it produces
  (pending, fulfilled with a value, rejected with a thrown value); \<^verbatim>\<open>await\<close> and
  \<^verbatim>\<open>.then\<close> are sequencing, \<^verbatim>\<open>.catch\<close> handles a rejection. Everything the
  client cannot decide by itself is a parameter: how the RPC layer settles each
  \<^verbatim>\<open>serverRPC.send\<close>, the clock, the library functions, the user's workflow function
  and callbacks, and the server messages that arrive while an operation is suspended.
\<close>

subsection \<open>JavaScript values\<close>

text \<open>
  The values that flow through \<^verbatim>\<open>any\<close>-typed positions. Numbers are the
  integer-valued ones; an \<^verbatim>\<open>Error\<close> instance carries the name of its class, and
  its \<^verbatim>\<open>name\<close>, \<^verbatim>\<open>message\<close> and \<^verbatim>\<open>stack\<close>.
\<close>

datatype jsval =
    JUndefined
  | JNull
  | JBool bool
  | JNum int
  | JStr string
  | JArr "jsval list"
  | JObj "(string \<times> jsval) list"
  | JError string string string "string option"

text \<open>The truthiness test of \<^verbatim>\<open>x ? a : b\<close> and \<^verbatim>\<open>if (x)\<close>.\<close>

fun truthy :: "jsval \<Rightarrow> bool" where
  "truthy JUndefined = False"
| "truthy JNull = False"
| "truthy (JBool b) = b"
| "truthy (JNum n) = (n \<noteq> 0)"
| "truthy (JStr s) = (s \<noteq> [])"
| "truthy (JArr xs) = True"
| "truthy (JObj fs) = True"
| "truthy (JError c n m s) = True"


fun instanceof_TimeoutError :: "jsval \<Rightarrow> bool" where
  "instanceof_TimeoutError (JError c n m s) = (c = ''TimeoutError'')"
| "instanceof_TimeoutError v = False"

subsection \<open>Promises and the pending-callback maps\<close>

datatype 'v promise = Pending | Fulfilled 'v | Rejected jsval

text \<open>
  Each of the seven maps (\<^verbatim>\<open>#waitForCallbacks\<close>, \<^verbatim>\<open>#fetchCallbacks\<close>, ...) is a
  \<^verbatim>\<open>Map<string, {resolve, reject}>\<close>. A \<^verbatim>\<open>{resolve, reject}\<close> pair belongs to
  the promise that was created around the \<^verbatim>\<open>set\<close> call, so an entry is the index of
  that promise, and the promises of one map are kept beside it.
\<close>

record 'v callback_map =
  entries :: "string \<rightharpoonup> nat"
  promises :: "'v promise list"

definition empty_callbacks :: "'v callback_map" where
  "empty_callbacks = \<lparr>entries = Map.empty, promises = []\<rparr>"

text \<open>
  \<^verbatim>\<open>new Promise((resolve, reject) => { map.set(k, {resolve, reject}) })\<close>: a fresh
  pending promise, and its pair stored under \<open>k\<close> (replacing what was there).
\<close>

definition promise_set :: "string \<Rightarrow> 'v callback_map \<Rightarrow> nat \<times> 'v callback_map" where
  "promise_set k m =
     (length (promises m),
      m\<lparr>entries := (entries m)(k \<mapsto> length (promises m)),
        promises := promises m @ [Pending]\<rparr>)"

text \<open>Calling \<^verbatim>\<open>resolve\<close> or \<^verbatim>\<open>reject\<close> settles a pending promise and is ignored
  by a settled one.\<close>

definition settle :: "nat \<Rightarrow> 'v promise \<Rightarrow> 'v callback_map \<Rightarrow> 'v callback_map" where
  "settle p s m =
     (if p < length (promises m) \<and> promises m ! p = Pending
      then m\<lparr>promises := (promises m)[p := s]\<rparr> else m)"

definition promise_state :: "'v callback_map \<Rightarrow> nat \<Rightarrow> 'v promise" where
  "promise_state m p = (if p < length (promises m) then promises m ! p else Pending)"

subsection \<open>Messages\<close>

record FetchOutput =
  status :: int
  ok :: bool
  headers :: "(string \<times> string) list"
  body :: jsval

record RunOnceOutput =
  idempotencyKey :: string
  hasRun :: bool
  run_output :: jsval

text \<open>The body of \<^verbatim>\<open>SEND_FETCH\<close> and of \<^verbatim>\<open>SEND_REQUEST\<close>.\<close>

record fetch_request =
  url :: string
  request_method :: string
  request_headers :: jsval
  request_body :: jsval
  retry :: jsval

record service_request =
  service :: string
  endpoint :: string
  params :: jsval
  version :: jsval

record delay_options =
  seconds :: jsval
  minutes :: jsval
  hours :: jsval
  days :: jsval

datatype wait = DELAY delay_options | SCHEDULE_FOR string

datatype run_once_type = REMOTE | LOCAL_ONLY

text \<open>
  The client-to-server methods the client calls, with their payloads. The last
  argument of every run-scoped method is its \<^verbatim>\<open>timestamp\<close>.
\<close>

datatype rpc =
    INITIALIZE_HOST_V2 jsval
  | START_WORKFLOW_RUN (runId: string) (timestamp: string)
  | COMPLETE_WORKFLOW_RUN (runId: string) "string option" (timestamp: string)
  | SEND_WORKFLOW_ERROR (runId: string) jsval (timestamp: string)
  | SEND_FETCH (runId: string) (key: string) fetch_request (timestamp: string)
  | SEND_KV_GET (runId: string) (key: string) string string (timestamp: string)
  | SEND_KV_SET (runId: string) (key: string) string string jsval (timestamp: string)
  | SEND_KV_DELETE (runId: string) (key: string) string string (timestamp: string)
  | INITIALIZE_DELAY (runId: string) (key: string) wait (timestamp: string)
  | INITIALIZE_RUN_ONCE (runId: string) (key: string) run_once_type (timestamp: string)
  | COMPLETE_RUN_ONCE (runId: string) (key: string) string "string option" (timestamp: string)
  | SEND_REQUEST (runId: string) (key: string) service_request (timestamp: string)

text \<open>
  The server-to-client messages that settle a pending call:
  \<^verbatim>\<open>{meta: {runId}, key}\<close> and, where the method has one, \<^verbatim>\<open>output\<close> or
  \<^verbatim>\<open>error\<close>.
\<close>

datatype server_message =
    RESOLVE_DELAY string string
  | RESOLVE_RUN_ONCE string string RunOnceOutput
  | RESOLVE_REQUEST string string jsval
  | REJECT_REQUEST string string jsval
  | RESOLVE_FETCH_REQUEST string string FetchOutput
  | REJECT_FETCH_REQUEST string string jsval
  | RESOLVE_KV_GET string string jsval
  | RESOLVE_KV_SET string string
  | RESOLVE_KV_DELETE string string

subsection \<open>The client\<close>

datatype log_level = LevelDebug | LevelLog | LevelError

datatype callbacks_name =
    ResponseCompleteCallbacks | WaitForCallbacks | FetchCallbacks | RunOnceCallbacks
  | KvGetCallbacks | KvSetCallbacks | KvDeleteCallbacks

text \<open>
  What the client does, in the order it does it: a write to one of the maps, a call of
  \<^verbatim>\<open>serverRPC.send\<close>, a line given to the logger, a call of the user's workflow
  function or of a \<^verbatim>\<open>runOnce\<close> callback, a backoff sleep.
\<close>

datatype event =
    CallbacksSet callbacks_name string
  | Sent rpc
  | Logged log_level string
  | RunInvoked jsval
  | CallbackInvoked string
  | Slept nat

record client =
  responseCompleteCallbacks :: "jsval callback_map"
  waitForCallbacks :: "unit callback_map"
  fetchCallbacks :: "FetchOutput callback_map"
  runOnceCallbacks :: "RunOnceOutput callback_map"
  kvGetCallbacks :: "jsval callback_map"
  kvSetCallbacks :: "unit callback_map"
  kvDeleteCallbacks :: "unit callback_map"
  serverRPC :: bool
  registerResponse_url :: string
  trace :: "event list"

text \<open>
  \<open>serverRPC\<close> says whether \<^verbatim>\<open>#serverRPC\<close> is set. The handlers read
  \<^verbatim>\<open>this.#registerResponse!.url\<close>: they run after the registration has answered,
  which is what the source's non-null assertion states, so the field is not optional
  here.
\<close>

text \<open>
  The environment of one client. \<open>network n\<close> is how the RPC layer settles the
  \<open>n\<close>-th call of \<^verbatim>\<open>serverRPC.send\<close> (\<open>Inl\<close>: it rejects with that value,
  \<open>Inr\<close>: it resolves with that response); \<open>hrtime n\<close> is the reading of
  \<^verbatim>\<open>process.hrtime()\<close> taken for that call. \<open>JSON_stringify\<close> returns a string or
  \<^verbatim>\<open>undefined\<close>, or throws (\<open>Inl\<close>). The other fields are the library functions
  \<^verbatim>\<open>generateErrorMessage\<close> (zod-error, with the error delimiter it is given),
  \<^verbatim>\<open>terminalLink\<close> and \<^verbatim>\<open>Date.prototype.toISOString\<close>.
\<close>

record runtime =
  network :: "nat \<Rightarrow> jsval + jsval"
  hrtime :: "nat \<Rightarrow> nat \<times> nat"
  JSON_stringify :: "jsval \<Rightarrow> jsval + string option"
  generateErrorMessage :: "jsval list \<Rightarrow> string \<Rightarrow> string"
  terminalLink :: "string \<Rightarrow> string \<Rightarrow> string"
  toISOString :: "int \<Rightarrow> string"

type_synonym 'a task = "client \<Rightarrow> 'a promise \<times> client"

definition promise_resolve :: "'a \<Rightarrow> 'a task" where
  "promise_resolve v c = (Fulfilled v, c)"

definition promise_reject :: "jsval \<Rightarrow> 'a task" where
  "promise_reject e c = (Rejected e, c)"

text \<open>\<^verbatim>\<open>p.then(f)\<close>, and \<^verbatim>\<open>const x = await p; f(x)\<close>.\<close>

definition promise_then :: "'a task \<Rightarrow> ('a \<Rightarrow> 'b task) \<Rightarrow> 'b task" where
  "promise_then m f c =
     (case m c of
        (Fulfilled v, c') \<Rightarrow> f v c'
      | (Rejected e, c') \<Rightarrow> (Rejected e, c')
      | (Pending, c') \<Rightarrow> (Pending, c'))"

text \<open>\<^verbatim>\<open>p.catch(h)\<close>.\<close>

definition promise_catch :: "'a task \<Rightarrow> (jsval \<Rightarrow> 'a task) \<Rightarrow> 'a task" where
  "promise_catch m h c =
     (case m c of
        (Fulfilled v, c') \<Rightarrow> (Fulfilled v, c')
      | (Rejected e, c') \<Rightarrow> h e c'
      | (Pending, c') \<Rightarrow> (Pending, c'))"

definition logger :: "log_level \<Rightarrow> string \<Rightarrow> client \<Rightarrow> client" where
  "logger level message c = c\<lparr>trace := trace c @ [Logged level message]\<rparr>"

fun is_Sent :: "event \<Rightarrow> bool" where
  "is_Sent (Sent m) = True"
| "is_Sent e = False"

definition sendCount :: "client \<Rightarrow> nat" where
  "sendCount c = length (filter is_Sent (trace c))"

text \<open>\<^verbatim>\<open>serverRPC.send(method, payload)\<close>.\<close>

definition serverRPC_send :: "runtime \<Rightarrow> rpc \<Rightarrow> jsval task" where
  "serverRPC_send rt m c =
     (case network rt (sendCount c) of Inl e \<Rightarrow> Rejected e | Inr v \<Rightarrow> Fulfilled v,
      c\<lparr>trace := trace c @ [Sent m]\<rparr>)"

definition messageKey :: "string \<Rightarrow> string \<Rightarrow> string" where
  "messageKey run_id k = run_id @ '':'' @ k"

definition highPrecisionTimestamp :: "nat \<times> nat \<Rightarrow> nat" where
  "highPrecisionTimestamp t = (case t of (s, ns) \<Rightarrow> s * 1000000000 + ns)"

text \<open>\<^verbatim>\<open>String(n)\<close> for a natural number: its decimal digits.\<close>

fun String_of :: "nat \<Rightarrow> string" where
  "String_of n =
     (if n < 10 then [''0123456789'' ! n]
      else String_of (n div 10) @ [''0123456789'' ! (n mod 10)])"

declare String_of.simps [simp del]

text \<open>\<^verbatim>\<open>String(highPrecisionTimestamp())\<close>, for the \<open>n\<close>-th request and for the
  next request of a client.\<close>

definition timestamp_at :: "runtime \<Rightarrow> nat \<Rightarrow> string" where
  "timestamp_at rt n = String_of (highPrecisionTimestamp (hrtime rt n))"

definition timestamp_now :: "runtime \<Rightarrow> client \<Rightarrow> string" where
  "timestamp_now rt c = timestamp_at rt (sendCount c)"

subsection \<open>The handlers that settle pending calls\<close>

definition could_not_find :: "string \<Rightarrow> string \<Rightarrow> string \<Rightarrow> string" where
  "could_not_find what ident k =
     ''Could not find '' @ what @ '' callbacks for '' @ ident @ '' ID '' @ k @
     ''. This can happen when a workflow run is resumed''"

text \<open>
  One equation for each handler of the \<^verbatim>\<open>handlers\<close> object given to the RPC layer
  (\<^verbatim>\<open>TRIGGER_WORKFLOW\<close> comes later). Each handler is an \<^verbatim>\<open>async\<close> function
  that returns \<^verbatim>\<open>true\<close>.
\<close>

fun handlers :: "server_message \<Rightarrow> bool task" where
  "handlers (RESOLVE_DELAY run_id k) c =
     (let c1 = logger LevelDebug ''Handling RESOLVE_DELAY'' c in
      case entries (waitForCallbacks c1) (messageKey run_id k) of
        None \<Rightarrow>
          (Fulfilled True,
           logger LevelDebug (could_not_find ''wait'' ''wait'' (messageKey run_id k)) c1)
      | Some p \<Rightarrow>
          (Fulfilled True,
           c1\<lparr>waitForCallbacks := settle p (Fulfilled ()) (waitForCallbacks c1)\<rparr>))"
| "handlers (RESOLVE_RUN_ONCE run_id k out) c =
     (let c1 = logger LevelDebug ''Handling RESOLVE_RUN_ONCE'' c in
      case entries (runOnceCallbacks c1) (messageKey run_id k) of
        None \<Rightarrow>
          (Fulfilled True,
           logger LevelDebug (could_not_find ''runOnce'' ''request'' (messageKey run_id k)) c1)
      | Some p \<Rightarrow>
          (Fulfilled True,
           c1\<lparr>runOnceCallbacks := settle p (Fulfilled out) (runOnceCallbacks c1)\<rparr>))"
| "handlers (RESOLVE_REQUEST run_id k out) c =
     (let c1 = logger LevelDebug ''Handling RESOLVE_REQUEST'' c in
      case entries (responseCompleteCallbacks c1) (messageKey run_id k) of
        None \<Rightarrow>
          (Fulfilled True,
           logger LevelDebug (could_not_find ''request'' ''request'' (messageKey run_id k)) c1)
      | Some p \<Rightarrow>
          (Fulfilled True,
           c1\<lparr>responseCompleteCallbacks :=
                 settle p (Fulfilled out) (responseCompleteCallbacks c1)\<rparr>))"
| "handlers (REJECT_REQUEST run_id k err) c =
     (let c1 = logger LevelDebug ''Handling REJECT_REQUEST'' c in
      case entries (responseCompleteCallbacks c1) (messageKey run_id k) of
        None \<Rightarrow>
          (Fulfilled True,
           logger LevelDebug (could_not_find ''request'' ''request'' (messageKey run_id k)) c1)
      | Some p \<Rightarrow>
          (Fulfilled True,
           c1\<lparr>responseCompleteCallbacks :=
                 settle p (Rejected err) (responseCompleteCallbacks c1)\<rparr>))"
| "handlers (RESOLVE_FETCH_REQUEST run_id k out) c =
     (let c1 = logger LevelDebug ''Handling RESOLVE_FETCH_REQUEST'' c in
      case entries (fetchCallbacks c1) (messageKey run_id k) of
        None \<Rightarrow>
          (Fulfilled True,
           logger LevelDebug (could_not_find ''fetch'' ''request'' (messageKey run_id k)) c1)
      | Some p \<Rightarrow>
          (Fulfilled True,
           c1\<lparr>fetchCallbacks := settle p (Fulfilled out) (fetchCallbacks c1)\<rparr>))"
| "handlers (REJECT_FETCH_REQUEST run_id k err) c =
     (let c1 = logger LevelDebug ''Handling REJECT_FETCH_REQUEST'' c in
      case entries (fetchCallbacks c1) (messageKey run_id k) of
        None \<Rightarrow>
          (Fulfilled True,
           logger LevelDebug (could_not_find ''fetch'' ''request'' (messageKey run_id k)) c1)
      | Some p \<Rightarrow>
          (Fulfilled True,
           c1\<lparr>fetchCallbacks := settle p (Rejected err) (fetchCallbacks c1)\<rparr>))"
| "handlers (RESOLVE_KV_GET run_id k out) c =
     (let c1 = logger LevelDebug ''Handling RESOLVE_KV_GET'' c in
      case entries (kvGetCallbacks c1) (messageKey run_id k) of
        None \<Rightarrow>
          (Fulfilled True,
           logger LevelDebug (could_not_find ''kvGet'' ''request'' (messageKey run_id k)) c1)
      | Some p \<Rightarrow>
          (Fulfilled True,
           c1\<lparr>kvGetCallbacks := settle p (Fulfilled out) (kvGetCallbacks c1)\<rparr>))"
| "handlers (RESOLVE_KV_SET run_id k) c =
     (let c1 = logger LevelDebug ''Handling RESOLVE_KV_SET'' c in
      case entries (kvSetCallbacks c1) (messageKey run_id k) of
        None \<Rightarrow>
          (Fulfilled True,
           logger LevelDebug (could_not_find ''kvSet'' ''request'' (messageKey run_id k)) c1)
      | Some p \<Rightarrow>
          (Fulfilled True,
           c1\<lparr>kvSetCallbacks := settle p (Fulfilled ()) (kvSetCallbacks c1)\<rparr>))"
| "handlers (RESOLVE_KV_DELETE run_id k) c =
     (let c1 = logger LevelDebug ''Handling RESOLVE_KV_DELETE'' c in
      case entries (kvDeleteCallbacks c1) (messageKey run_id k) of
        None \<Rightarrow>
          (Fulfilled True,
           logger LevelDebug (could_not_find ''kvDelete'' ''request'' (messageKey run_id k)) c1)
      | Some p \<Rightarrow>
          (Fulfilled True,
           c1\<lparr>kvDeleteCallbacks := settle p (Fulfilled ()) (kvDeleteCallbacks c1)\<rparr>))"

text \<open>The map a message is looked up in, and the entry found there.\<close>

fun callbacks_of :: "server_message \<Rightarrow> callbacks_name" where
  "callbacks_of (RESOLVE_DELAY run_id k) = WaitForCallbacks"
| "callbacks_of (RESOLVE_RUN_ONCE run_id k out) = RunOnceCallbacks"
| "callbacks_of (RESOLVE_REQUEST run_id k out) = ResponseCompleteCallbacks"
| "callbacks_of (REJECT_REQUEST run_id k err) = ResponseCompleteCallbacks"
| "callbacks_of (RESOLVE_FETCH_REQUEST run_id k out) = FetchCallbacks"
| "callbacks_of (REJECT_FETCH_REQUEST run_id k err) = FetchCallbacks"
| "callbacks_of (RESOLVE_KV_GET run_id k out) = KvGetCallbacks"
| "callbacks_of (RESOLVE_KV_SET run_id k) = KvSetCallbacks"
| "callbacks_of (RESOLVE_KV_DELETE run_id k) = KvDeleteCallbacks"

fun message_key :: "server_message \<Rightarrow> string" where
  "message_key (RESOLVE_DELAY run_id k) = messageKey run_id k"
| "message_key (RESOLVE_RUN_ONCE run_id k out) = messageKey run_id k"
| "message_key (RESOLVE_REQUEST run_id k out) = messageKey run_id k"
| "message_key (REJECT_REQUEST run_id k err) = messageKey run_id k"
| "message_key (RESOLVE_FETCH_REQUEST run_id k out) = messageKey run_id k"
| "message_key (REJECT_FETCH_REQUEST run_id k err) = messageKey run_id k"
| "message_key (RESOLVE_KV_GET run_id k out) = messageKey run_id k"
| "message_key (RESOLVE_KV_SET run_id k) = messageKey run_id k"
| "message_key (RESOLVE_KV_DELETE run_id k) = messageKey run_id k"

fun entry :: "callbacks_name \<Rightarrow> client \<Rightarrow> string \<Rightarrow> nat option" where
  "entry ResponseCompleteCallbacks c = entries (responseCompleteCallbacks c)"
| "entry WaitForCallbacks c = entries (waitForCallbacks c)"
| "entry FetchCallbacks c = entries (fetchCallbacks c)"
| "entry RunOnceCallbacks c = entries (runOnceCallbacks c)"
| "entry KvGetCallbacks c = entries (kvGetCallbacks c)"
| "entry KvSetCallbacks c = entries (kvSetCallbacks c)"
| "entry KvDeleteCallbacks c = entries (kvDeleteCallbacks c)"

text \<open>The two debug lines of a handler that finds no entry.\<close>

fun handling :: "server_message \<Rightarrow> string" where
  "handling (RESOLVE_DELAY run_id k) = ''Handling RESOLVE_DELAY''"
| "handling (RESOLVE_RUN_ONCE run_id k out) = ''Handling RESOLVE_RUN_ONCE''"
| "handling (RESOLVE_REQUEST run_id k out) = ''Handling RESOLVE_REQUEST''"
| "handling (REJECT_REQUEST run_id k err) = ''Handling REJECT_REQUEST''"
| "handling (RESOLVE_FETCH_REQUEST run_id k out) = ''Handling RESOLVE_FETCH_REQUEST''"
| "handling (REJECT_FETCH_REQUEST run_id k err) = ''Handling REJECT_FETCH_REQUEST''"
| "handling (RESOLVE_KV_GET run_id k out) = ''Handling RESOLVE_KV_GET''"
| "handling (RESOLVE_KV_SET run_id k) = ''Handling RESOLVE_KV_SET''"
| "handling (RESOLVE_KV_DELETE run_id k) = ''Handling RESOLVE_KV_DELETE''"

fun not_found :: "server_message \<Rightarrow> string" where
  "not_found (RESOLVE_DELAY run_id k) = could_not_find ''wait'' ''wait'' (messageKey run_id k)"
| "not_found (RESOLVE_RUN_ONCE run_id k out) =
     could_not_find ''runOnce'' ''request'' (messageKey run_id k)"
| "not_found (RESOLVE_REQUEST run_id k out) =
     could_not_find ''request'' ''request'' (messageKey run_id k)"
| "not_found (REJECT_REQUEST run_id k err) =
     could_not_find ''request'' ''request'' (messageKey run_id k)"
| "not_found (RESOLVE_FETCH_REQUEST run_id k out) =
     could_not_find ''fetch'' ''request'' (messageKey run_id k)"
| "not_found (REJECT_FETCH_REQUEST run_id k err) =
     could_not_find ''fetch'' ''request'' (messageKey run_id k)"
| "not_found (RESOLVE_KV_GET run_id k out) =
     could_not_find ''kvGet'' ''request'' (messageKey run_id k)"
| "not_found (RESOLVE_KV_SET run_id k) =
     could_not_find ''kvSet'' ''request'' (messageKey run_id k)"
| "not_found (RESOLVE_KV_DELETE run_id k) =
     could_not_find ''kvDelete'' ''request'' (messageKey run_id k)"

text \<open>Messages are handled one after the other, in the order they arrive.\<close>

definition deliver :: "server_message list \<Rightarrow> client \<Rightarrow> client" where
  "deliver msgs c = fold (\<lambda>m c'. snd (handlers m c')) msgs c"

subsection \<open>The context operations\<close>

text \<open>
  The message \<^verbatim>\<open>TRIGGER_WORKFLOW\<close> carries the run: its id, the raw event and
  \<^verbatim>\<open>meta\<close>. The attempt number is a number or absent.
\<close>

record trigger_meta =
  environment :: string
  apiKey :: string
  organizationId :: string
  isTest :: bool
  workflowId :: string
  appOrigin :: string
  attempt :: jsval

record trigger_data =
  data_id :: string
  trigger_input :: jsval
  meta :: trigger_meta



definition fetchCallbacks_set :: "string \<Rightarrow> nat task" where
  "fetchCallbacks_set k c =
     (case promise_set k (fetchCallbacks c) of
        (p, m) \<Rightarrow>
          (Fulfilled p,
           c\<lparr>fetchCallbacks := m, trace := trace c @ [CallbacksSet FetchCallbacks k]\<rparr>))"

definition runOnceCallbacks_set :: "string \<Rightarrow> nat task" where
  "runOnceCallbacks_set k c =
     (case promise_set k (runOnceCallbacks c) of
        (p, m) \<Rightarrow>
          (Fulfilled p,
           c\<lparr>runOnceCallbacks := m, trace := trace c @ [CallbacksSet RunOnceCallbacks k]\<rparr>))"




text \<open>
  An operation is suspended at \<^verbatim>\<open>await serverRPC.send(...)\<close> and then at
  \<^verbatim>\<open>await result\<close>. \<open>awaiting inbound m\<close> starts \<open>m\<close> and lets the handlers take
  the messages \<open>inbound\<close>, those that arrive once the request is out, before the
  operation goes on with the outcome of \<open>m\<close>.
\<close>

definition awaiting :: "server_message list \<Rightarrow> 'a task \<Rightarrow> 'a task" where
  "awaiting inbound m c = (case m c of (r, c') \<Rightarrow> (r, deliver inbound c'))"

text \<open>
  \<^verbatim>\<open>fetch(key, url, options)\<close>. A response schema is its \<^verbatim>\<open>parse\<close>: the parsed
  value, or the error it throws (\<open>Inl\<close>). \<^verbatim>\<open>z.any()\<close> accepts every value as it
  is.
\<close>

record fetch_options =
  options_method :: "string option"
  options_headers :: jsval
  options_body :: jsval
  options_retry :: jsval
  responseSchema :: "(jsval \<Rightarrow> jsval + jsval) option"

definition z_any :: "jsval \<Rightarrow> jsval + jsval" where
  "z_any v = Inr v"

definition fetchFunction ::
  "runtime \<Rightarrow> trigger_data \<Rightarrow> string \<Rightarrow> string \<Rightarrow> fetch_options \<Rightarrow> server_message list
     \<Rightarrow> FetchOutput task" where
  "fetchFunction rt data k u options inbound =
     promise_then (fetchCallbacks_set (messageKey (data_id data) k)) (\<lambda>result.
     promise_then
       (awaiting inbound (\<lambda>c. serverRPC_send rt
          (SEND_FETCH (data_id data) k
             \<lparr>url = u,
              request_method = (case options_method options of None \<Rightarrow> ''GET'' | Some m \<Rightarrow> m),
              request_headers = options_headers options,
              request_body = options_body options,
              retry = options_retry options\<rparr>
             (timestamp_now rt c)) c)) (\<lambda>sent.
     promise_then (\<lambda>c. (promise_state (fetchCallbacks c) result, c)) (\<lambda>response.
       if truthy (body response)
       then (case (case responseSchema options of None \<Rightarrow> z_any | Some schema \<Rightarrow> schema)
                   (body response) of
               Inl err \<Rightarrow> promise_reject err
             | Inr parsed \<Rightarrow>
                 promise_resolve
                   \<lparr>status = status response, ok = ok response,
                    headers = headers response, body = parsed\<rparr>)
       else promise_resolve
              \<lparr>status = status response, ok = ok response,
               headers = headers response, body = JUndefined\<rparr>)))"







text \<open>
  \<^verbatim>\<open>runOnce(key, callback)\<close> and \<^verbatim>\<open>runOnceLocalOnly(key, callback)\<close>. The
  callback is user code: \<open>callback i\<close> is the state of the promise it returns when it
  is called with \<open>i\<close>, and the call is recorded.
\<close>

definition invoke_callback :: "(string \<Rightarrow> jsval promise) \<Rightarrow> string \<Rightarrow> jsval task" where
  "invoke_callback callback i c = (callback i, c\<lparr>trace := trace c @ [CallbackInvoked i]\<rparr>)"

definition runOnce ::
  "runtime \<Rightarrow> trigger_data \<Rightarrow> string \<Rightarrow> (string \<Rightarrow> jsval promise) \<Rightarrow> server_message list
     \<Rightarrow> jsval task" where
  "runOnce rt data k callback inbound =
     promise_then (runOnceCallbacks_set (messageKey (data_id data) k)) (\<lambda>result.
     promise_then
       (awaiting inbound (\<lambda>c. serverRPC_send rt
          (INITIALIZE_RUN_ONCE (data_id data) k REMOTE (timestamp_now rt c)) c)) (\<lambda>sent.
     promise_then (\<lambda>c. (promise_state (runOnceCallbacks c) result, c)) (\<lambda>reply.
       if hasRun reply then promise_resolve (run_output reply)
       else
         promise_then (invoke_callback callback (idempotencyKey reply)) (\<lambda>callbackResult.
         promise_then
           (\<lambda>c. if truthy callbackResult
                then (case JSON_stringify rt callbackResult of
                        Inl err \<Rightarrow> (Rejected err, c)
                      | Inr s \<Rightarrow>
                          serverRPC_send rt
                            (COMPLETE_RUN_ONCE (data_id data) k (idempotencyKey reply) s
                               (timestamp_now rt c)) c)
                else serverRPC_send rt
                       (COMPLETE_RUN_ONCE (data_id data) k (idempotencyKey reply) None
                          (timestamp_now rt c)) c) (\<lambda>completed.
         promise_resolve callbackResult)))))"




subsection \<open>The handler of \<^verbatim>\<open>TRIGGER_WORKFLOW\<close>\<close>

text \<open>
  What the user gives: the trigger's schema, as its \<^verbatim>\<open>safeParse\<close> (the issues, or
  the parsed event), and the workflow function. \<open>run e\<close> is the state of the promise
  the function returns when it is called with the event \<open>e\<close>: fulfilled with its
  output, rejected with what it threw, or pending when it never finishes. The context
  operations it calls on the way are the ones above.

  The workflow function is an \<^verbatim>\<open>async\<close> function, as the handler's
  \<^verbatim>\<open>.run(eventData, ctx).then(...)\<close> expects: a throw in its body is the rejection
  of the promise it returns. The \<^verbatim>\<open>await import("terminal-link")\<close> that precedes
  the run is taken to succeed, its result being the \<open>terminalLink\<close> of the runtime.
\<close>

record trigger_options =
  safeParse :: "jsval \<Rightarrow> jsval list + jsval"
  run :: "jsval \<Rightarrow> jsval promise"

definition invoke_run :: "trigger_options \<Rightarrow> jsval \<Rightarrow> jsval task" where
  "invoke_run opts eventData c = (run opts eventData, c\<lparr>trace := trace c @ [RunInvoked eventData]\<rparr>)"

text \<open>The error delimiter of \<^verbatim>\<open>zodErrorMessageOptions\<close>: a fire sign between two
  spaces, in UTF-8.\<close>

definition zodErrorMessageOptions :: string where
  "zodErrorMessageOptions = [CHR '' '', CHR 0xF0, CHR 0x9F, CHR 0x94, CHR 0xA5, CHR '' '']"

text \<open>The two lines of the log that carry a link to the run on the dashboard; the
  sign before the link is a pointing hand, in UTF-8.\<close>

definition dashboard_link :: "runtime \<Rightarrow> client \<Rightarrow> trigger_data \<Rightarrow> string" where
  "dashboard_link rt c data =
     [CHR 0xF0, CHR 0x9F, CHR 0x91, CHR 0x89] @ '' '' @
     terminalLink rt ''View on dashboard'' (registerResponse_url c @ ''/runs/'' @ data_id data)"

definition run_started :: "runtime \<Rightarrow> client \<Rightarrow> trigger_data \<Rightarrow> string" where
  "run_started rt c data = ''Run '' @ data_id data @ '' started '' @ dashboard_link rt c data"

definition run_complete :: "runtime \<Rightarrow> client \<Rightarrow> trigger_data \<Rightarrow> string" where
  "run_complete rt c data = ''Run '' @ data_id data @ '' complete '' @ dashboard_link rt c data"

text \<open>
  \<^verbatim>\<open>z.object({name: z.string(), message: z.string()}).passthrough().safeParse(v)\<close>:
  it succeeds on an object whose \<^verbatim>\<open>name\<close> and \<^verbatim>\<open>message\<close> are strings, and
  its data are these two keys followed by the other keys of the object.
\<close>

fun name_and_message :: "jsval \<Rightarrow> jsval option" where
  "name_and_message (JObj fs) =
     (case (map_of fs ''name'', map_of fs ''message'') of
        (Some (JStr n), Some (JStr m)) \<Rightarrow>
          Some (JObj ((''name'', JStr n) # (''message'', JStr m) #
                      filter (\<lambda>f. fst f \<noteq> ''name'' \<and> fst f \<noteq> ''message'') fs))
      | other \<Rightarrow> None)"
| "name_and_message v = None"

fun parseAnyError :: "jsval \<Rightarrow> jsval" where
  "parseAnyError (JError c n m s) =
     JObj [(''name'', JStr n), (''message'', JStr m),
           (''stackTrace'', case s of None \<Rightarrow> JUndefined | Some st \<Rightarrow> JStr st)]"
| "parseAnyError error =
     (case name_and_message error of
        Some parsed \<Rightarrow> parsed
      | None \<Rightarrow>
          JObj [(''name'', JStr ''UnknownError''),
                (''message'', JStr ''An unknown error occurred'')])"

text \<open>
  The promise chain that starts with \<^verbatim>\<open>serverRPC.send("START_WORKFLOW_RUN", ...)\<close>.
  The inner \<^verbatim>\<open>catch\<close> follows the user's function and the \<^verbatim>\<open>then\<close> that
  completes the run; the outer one follows the whole chain.
\<close>

definition start_workflow_run ::
  "runtime \<Rightarrow> trigger_options \<Rightarrow> trigger_data \<Rightarrow> jsval \<Rightarrow> jsval task" where
  "start_workflow_run rt opts data eventData =
     promise_catch
       (promise_then
          (\<lambda>c. serverRPC_send rt (START_WORKFLOW_RUN (data_id data) (timestamp_now rt c)) c)
          (\<lambda>started.
             promise_catch
               (promise_then (invoke_run opts eventData) (\<lambda>out c.
                  (let c' = logger LevelLog (run_complete rt c data) c in
                   case JSON_stringify rt out of
                     Inl err \<Rightarrow> (Rejected err, c')
                   | Inr s \<Rightarrow>
                       serverRPC_send rt
                         (COMPLETE_WORKFLOW_RUN (data_id data) s (timestamp_now rt c')) c')))
               (\<lambda>anyError c.
                  serverRPC_send rt
                    (SEND_WORKFLOW_ERROR (data_id data) (parseAnyError anyError)
                       (timestamp_now rt c)) c)))
       (\<lambda>anyError c.
          serverRPC_send rt
            (SEND_WORKFLOW_ERROR (data_id data) anyError (timestamp_now rt c)) c)"

text \<open>
  The handler. It awaits the \<^verbatim>\<open>SEND_WORKFLOW_ERROR\<close> of an event that fails the
  schema; it does not await the chain of a run, whose events are the ones that
  follow in the trace.
\<close>

definition TRIGGER_WORKFLOW :: "runtime \<Rightarrow> trigger_options \<Rightarrow> trigger_data \<Rightarrow> bool task" where
  "TRIGGER_WORKFLOW rt opts data c =
     (let c1 = logger LevelDebug ''Handling TRIGGER_WORKFLOW'' c in
      case safeParse opts (trigger_input data) of
        Inl issues \<Rightarrow>
          promise_then
            (\<lambda>c'. serverRPC_send rt
               (SEND_WORKFLOW_ERROR (data_id data)
                  (JObj [(''name'', JStr ''Event validation error''),
                         (''message'',
                          JStr (generateErrorMessage rt issues zodErrorMessageOptions))])
                  (timestamp_now rt c')) c')
            (\<lambda>sent. promise_resolve True) c1
      | Inr eventData \<Rightarrow>
          (let c2 = logger LevelDebug ''Parsed event data'' c1;
               c3 = logger LevelDebug ''Running trigger...'' c2;
               c4 = (if attempt (meta data) = JNum 0
                     then logger LevelLog (run_started rt c3 data) c3 else c3)
           in (Fulfilled True, snd (start_workflow_run rt opts data eventData c4))))"

text \<open>The client once \<^verbatim>\<open>listen\<close> has returned: the RPC layer is set, the
  registration has answered with the dashboard's address, and no call is pending.\<close>

definition listening :: "string \<Rightarrow> client" where
  "listening dashboard =
     \<lparr>responseCompleteCallbacks = empty_callbacks, waitForCallbacks = empty_callbacks,
      fetchCallbacks = empty_callbacks, runOnceCallbacks = empty_callbacks,
      kvGetCallbacks = empty_callbacks, kvSetCallbacks = empty_callbacks,
      kvDeleteCallbacks = empty_callbacks, serverRPC = True,
      registerResponse_url = dashboard, trace = []\<rparr>"

subsection \<open>The retrying \<^verbatim>\<open>#send\<close>\<close>

definition retryIntervalMs :: nat where
  "retryIntervalMs = 3000"

text \<open>\<^verbatim>\<open>await sleep(ms)\<close>.\<close>

definition sleep :: "nat \<Rightarrow> client \<Rightarrow> client" where
  "sleep ms c = c\<lparr>trace := trace c @ [Slept ms]\<rparr>"

fun method_name :: "rpc \<Rightarrow> string" where
  "method_name (INITIALIZE_HOST_V2 p) = ''INITIALIZE_HOST_V2''"
| "method_name (START_WORKFLOW_RUN r t) = ''START_WORKFLOW_RUN''"
| "method_name (COMPLETE_WORKFLOW_RUN r out t) = ''COMPLETE_WORKFLOW_RUN''"
| "method_name (SEND_WORKFLOW_ERROR r e t) = ''SEND_WORKFLOW_ERROR''"
| "method_name (SEND_FETCH r k f t) = ''SEND_FETCH''"
| "method_name (SEND_KV_GET r k n kk t) = ''SEND_KV_GET''"
| "method_name (SEND_KV_SET r k n kk v t) = ''SEND_KV_SET''"
| "method_name (SEND_KV_DELETE r k n kk t) = ''SEND_KV_DELETE''"
| "method_name (INITIALIZE_DELAY r k w t) = ''INITIALIZE_DELAY''"
| "method_name (INITIALIZE_RUN_ONCE r k ty t) = ''INITIALIZE_RUN_ONCE''"
| "method_name (COMPLETE_RUN_ONCE r k i out t) = ''COMPLETE_RUN_ONCE''"
| "method_name (SEND_REQUEST r k q t) = ''SEND_REQUEST''"

text \<open>The line that \<^verbatim>\<open>logger.error(err)\<close> writes for an error.\<close>

fun error_line :: "jsval \<Rightarrow> string" where
  "error_line (JError c n m s) = n @ '': '' @ m"
| "error_line v = []"

text \<open>\<^verbatim>\<open>Math.round(a / b)\<close> on natural numbers.\<close>

definition Math_round_div :: "nat \<Rightarrow> nat \<Rightarrow> nat" where
  "Math_round_div a b = (2 * a + b) div (2 * b)"

text \<open>The body of \<^verbatim>\<open>try\<close>: the debug line and the call of the RPC layer.\<close>

definition attempt_send :: "runtime \<Rightarrow> rpc \<Rightarrow> jsval task" where
  "attempt_send rt request c =
     serverRPC_send rt request
       (logger LevelDebug (''Sending RPC request to server: '' @ method_name request) c)"

text \<open>The branch of \<^verbatim>\<open>catch\<close> for a \<^verbatim>\<open>TimeoutError\<close>: two lines of log and
  the sleep.\<close>

definition backoff :: "jsval \<Rightarrow> client \<Rightarrow> client" where
  "backoff err c =
     sleep retryIntervalMs
       (logger LevelError (error_line err)
          (logger LevelLog
             (''RPC call timed out, retrying in '' @
              String_of (Math_round_div retryIntervalMs 1000) @ ''s...'') c))"

text \<open>
  \<^verbatim>\<open>while (true) { try { return await this.#serverRPC.send(...) } catch ... }\<close>.
  The loop has no bound: the value \<open>None\<close> is a call that never returns.
\<close>

partial_function (option) send_loop ::
  "runtime \<Rightarrow> rpc \<Rightarrow> client \<Rightarrow> (jsval promise \<times> client) option" where
  "send_loop rt request c =
     (case attempt_send rt request c of
        (Rejected err, c1) \<Rightarrow>
          if instanceof_TimeoutError err
          then send_loop rt request (backoff err c1)
          else Some (Rejected err, c1)
      | (settled, c1) \<Rightarrow> Some (settled, c1))"

text \<open>\<^verbatim>\<open>#send(methodName, request)\<close>. The stack of the error that the client
  creates is left out.\<close>

definition send :: "runtime \<Rightarrow> rpc \<Rightarrow> client \<Rightarrow> (jsval promise \<times> client) option" where
  "send rt request c =
     (if \<not> serverRPC c
      then Some (Rejected (JError ''Error'' ''Error'' ''serverRPC not initialized'' None), c)
      else send_loop rt request c)"

text \<open>How the RPC layer settles a call: with a \<^verbatim>\<open>TimeoutError\<close> or not, and the
  promise the caller sees.\<close>

fun timed_out :: "jsval + jsval \<Rightarrow> bool" where
  "timed_out (Inl err) = instanceof_TimeoutError err"
| "timed_out (Inr v) = False"

fun settled_as :: "jsval + jsval \<Rightarrow> jsval promise" where
  "settled_as (Inl err) = Rejected err"
| "settled_as (Inr v) = Fulfilled v"

fun send_or_sleep :: "event \<Rightarrow> bool" where
  "send_or_sleep (Sent m) = True"
| "send_or_sleep (Slept ms) = True"
| "send_or_sleep e = False"

subsection \<open>What an operation did\<close>

text \<open>The events that took the client from \<open>c\<close> to \<open>c'\<close>.\<close>

definition emitted :: "client \<Rightarrow> client \<Rightarrow> event list" where
  "emitted c c' = drop (length (trace c)) (trace c')"


text \<open>What the handler of \<^verbatim>\<open>TRIGGER_WORKFLOW\<close> writes to the log for an event that
  passes the schema, before it starts the run.\<close>

definition announced :: "runtime \<Rightarrow> client \<Rightarrow> trigger_data \<Rightarrow> event list" where
  "announced rt c data =
     [Logged LevelDebug ''Handling TRIGGER_WORKFLOW'',
      Logged LevelDebug ''Parsed event data'',
      Logged LevelDebug ''Running trigger...''] @
     (if attempt (meta data) = JNum 0 then [Logged LevelLog (run_started rt c data)] else [])"

text \<open>The error that reports an event which fails the schema.\<close>

definition validation_error :: "runtime \<Rightarrow> jsval list \<Rightarrow> jsval" where
  "validation_error rt issues =
     JObj [(''name'', JStr ''Event validation error''),
           (''message'', JStr (generateErrorMessage rt issues zodErrorMessageOptions))]"

fun is_RunInvoked :: "event \<Rightarrow> bool" where
  "is_RunInvoked (RunInvoked e) = True"
| "is_RunInvoked e = False"




text \<open>\<open>c'\<close> continues \<open>c\<close>: its trace extends the trace of \<open>c\<close>, and every key
  that has an entry in \<open>c\<close> has one in \<open>c'\<close>.\<close>

definition grows :: "client \<Rightarrow> client \<Rightarrow> bool" where
  "grows c c' \<longleftrightarrow>
     (\<exists>evs. trace c' = trace c @ evs) \<and>
     (\<forall>N k. entry N c k \<noteq> None \<longrightarrow> entry N c' k \<noteq> None)"


subsection \<open>The scenarios of the specification\<close>

text \<open>
  An environment for the scenarios: every request is answered with \<^verbatim>\<open>true\<close>, the
  clock advances by one second from one reading to the next, \<^verbatim>\<open>terminalLink\<close>
  falls back to \<^verbatim>\<open>text: (url)\<close>, the error message is the issues joined by the
  delimiter, and \<^verbatim>\<open>JSON.stringify\<close> is given on the values the scenarios
  serialise.
\<close>

fun join_issues :: "string \<Rightarrow> jsval list \<Rightarrow> string" where
  "join_issues d [] = []"
| "join_issues d [JStr m] = m"
| "join_issues d (JStr m # issues) = m @ d @ join_issues d issues"
| "join_issues d (i # issues) = join_issues d issues"

definition scenario_stringify :: "jsval \<Rightarrow> jsval + string option" where
  "scenario_stringify v =
     (if v = JUndefined then Inr None
      else if v = JObj [(''ok'', JBool True)] then Inr (Some ''{\"ok\":true}'')
      else if v = JObj [(''v'', JNum 42)] then Inr (Some ''{\"v\":42}'')
      else Inl (JError ''TypeError'' ''TypeError'' ''not a value of the scenarios'' None))"

definition scenario_runtime :: runtime where
  "scenario_runtime =
     \<lparr>network = (\<lambda>n. Inr (JBool True)),
      hrtime = (\<lambda>n. (n, 0)),
      JSON_stringify = scenario_stringify,
      generateErrorMessage = (\<lambda>issues delimiter. join_issues delimiter issues),
      terminalLink = (\<lambda>text link. text @ '': ('' @ link @ '')''),
      toISOString = (\<lambda>date. ''1970-01-01T00:00:00.000Z'')\<rparr>"

text \<open>The run \<^verbatim>\<open>r1\<close> of workflow \<^verbatim>\<open>w1\<close>, first attempt, with the event
  \<^verbatim>\<open>{n: 1}\<close>.\<close>

definition run_r1 :: trigger_data where
  "run_r1 =
     \<lparr>data_id = ''r1'', trigger_input = JObj [(''n'', JNum 1)],
      meta = \<lparr>environment = ''e'', apiKey = ''key'', organizationId = ''o'', isTest = False,
               workflowId = ''w1'', appOrigin = ''https://x'', attempt = JNum 0\<rparr>\<rparr>"

text \<open>An RPC layer that times out on the first \<open>k\<close> calls, and one that never
  answers in time.\<close>

definition TimeoutError :: jsval where
  "TimeoutError = JError ''TimeoutError'' ''TimeoutError'' ''Timed out'' None"

definition timing_out :: "nat \<Rightarrow> runtime" where
  "timing_out k =
     scenario_runtime\<lparr>network := (\<lambda>n. if n < k then Inl TimeoutError else Inr (JBool True))\<rparr>"

definition unreachable :: runtime where
  "unreachable = scenario_runtime\<lparr>network := (\<lambda>n. Inl TimeoutError)\<rparr>"

definition dropping :: "nat \<Rightarrow> runtime" where
  "dropping k =
     scenario_runtime\<lparr>network := (\<lambda>n. if n = k then Inl TimeoutError else Inr (JBool True))\<rparr>"

text \<open>The workflow of the scenarios: its schema is \<^verbatim>\<open>{n: number}\<close>, and its
  function returns \<^verbatim>\<open>{ok: true}\<close>; and one whose function throws an error.\<close>

definition number_schema :: "jsval \<Rightarrow> jsval list + jsval" where
  "number_schema v =
     (case v of
        JObj fs \<Rightarrow>
          (case map_of fs ''n'' of
             Some (JNum i) \<Rightarrow> Inr (JObj [(''n'', JNum i)])
           | other \<Rightarrow> Inl [JStr ''Expected number''])
      | other \<Rightarrow> Inl [JStr ''Expected object''])"

definition workflow_ok :: trigger_options where
  "workflow_ok = \<lparr>safeParse = number_schema, run = (\<lambda>e. Fulfilled (JObj [(''ok'', JBool True)]))\<rparr>"

definition workflow_throwing :: trigger_options where
  "workflow_throwing =
     \<lparr>safeParse = number_schema,
      run = (\<lambda>e. Rejected (JError ''Error'' ''Error'' ''boom'' (Some ''at run'')))\<rparr>"

text \<open>Fetch options that give nothing, the schema \<^verbatim>\<open>z.number()\<close>, and the reply
  of the server to a fetch with the body \<open>b\<close>.\<close>

definition no_options :: fetch_options where
  "no_options =
     \<lparr>options_method = None, options_headers = JUndefined, options_body = JUndefined,
      options_retry = JUndefined, responseSchema = None\<rparr>"

definition z_number :: "jsval \<Rightarrow> jsval + jsval" where
  "z_number v =
     (case v of
        JNum i \<Rightarrow> Inr (JNum i)
      | other \<Rightarrow> Inl (JError ''ZodError'' ''ZodError'' ''Expected number'' None))"

definition reply_with :: "jsval \<Rightarrow> FetchOutput" where
  "reply_with b = \<lparr>status = 200, ok = True, headers = [], body = b\<rparr>"

definition five_seconds :: delay_options where
  "five_seconds =
     \<lparr>seconds = JNum 5, minutes = JUndefined, hours = JUndefined, days = JUndefined\<rparr>"

section \<open>Properties\<close>

subsection \<open>A settling message for an unknown key\<close>

text \<open>
  Claim C7. When the map that a \<^verbatim>\<open>RESOLVE_*\<close> or \<^verbatim>\<open>REJECT_*\<close> message is
  looked up in has no entry under \<^verbatim>\<open>runId:key\<close>, the handler writes its two debug
  lines (the second one says that the callbacks could not be found), returns
  \<^verbatim>\<open>true\<close>, throws nothing, and leaves every map and every promise as it was: the
  client after the handler is the client before it with the two lines added to the
  log.
\<close>

theorem unknown_key_is_acknowledged:
  "entry (callbacks_of msg) c (message_key msg) = None \<Longrightarrow>
   handlers msg c =
     (Fulfilled True,
      c\<lparr>trace := trace c @ [Logged LevelDebug (handling msg),
                             Logged LevelDebug (not_found msg)]\<rparr>)"
  by (cases msg) (simp_all add: logger_def)

text \<open>
  The fourth scenario of the specification: \<^verbatim>\<open>RESOLVE_DELAY\<close> for run
  \<^verbatim>\<open>r99\<close> and key \<^verbatim>\<open>d9\<close> reaches a client with no pending call.
\<close>

theorem unknown_key_is_acknowledged_witness:
  "entry (callbacks_of (RESOLVE_DELAY ''r99'' ''d9'')) (listening ''https://x/'')
     (message_key (RESOLVE_DELAY ''r99'' ''d9'')) = None \<and>
   fst (handlers (RESOLVE_DELAY ''r99'' ''d9'') (listening ''https://x/'')) = Fulfilled True \<and>
   trace (snd (handlers (RESOLVE_DELAY ''r99'' ''d9'') (listening ''https://x/''))) =
     [Logged LevelDebug ''Handling RESOLVE_DELAY'',
      Logged LevelDebug
        ''Could not find wait callbacks for wait ID r99:d9. This can happen when a workflow run is resumed'']"
proof -
  have none: "entry (callbacks_of (RESOLVE_DELAY ''r99'' ''d9'')) (listening ''https://x/'')
     (message_key (RESOLVE_DELAY ''r99'' ''d9'')) = None"
    by (simp add: listening_def empty_callbacks_def)
  show ?thesis
    using none unknown_key_is_acknowledged [OF none]
    by (simp add: listening_def could_not_find_def messageKey_def)
qed

subsection \<open>What every operation keeps\<close>



lemma entry_trace_update: "entry N (c\<lparr>trace := t\<rparr>) = entry N c"
  by (cases N) simp_all

lemma grows_logger: "grows c (logger l m c)"
  by (simp add: grows_def logger_def entry_trace_update)











subsection \<open>The entry is set before the request is sent\<close>













text \<open>
  The third scenario of the specification: \<^verbatim>\<open>waitFor("d1", {seconds: 5})\<close> in
  run \<^verbatim>\<open>r1\<close>, answered by \<^verbatim>\<open>RESOLVE_DELAY\<close>.
\<close>

lemmas scenario_defs =
  scenario_runtime_def run_r1_def five_seconds_def listening_def empty_callbacks_def



subsection \<open>Entries stay in their maps\<close>











subsection \<open>The retrying send\<close>

lemma attempt_send_eq:
  "attempt_send rt request c =
     (settled_as (network rt (sendCount c)),
      c\<lparr>trace := trace c @
         [Logged LevelDebug (''Sending RPC request to server: '' @ method_name request),
          Sent request]\<rparr>)"
  by (cases "network rt (sendCount c)")
     (simp_all add: attempt_send_def serverRPC_send_def logger_def sendCount_def)

lemma send_loop_done:
  "\<not> timed_out (network rt (sendCount c)) \<Longrightarrow>
   send_loop rt request c =
     Some (settled_as (network rt (sendCount c)),
           c\<lparr>trace := trace c @
              [Logged LevelDebug (''Sending RPC request to server: '' @ method_name request),
               Sent request]\<rparr>)"
  by (subst send_loop.simps, cases "network rt (sendCount c)")
     (simp_all add: attempt_send_eq)

lemma send_loop_retry:
  "network rt (sendCount c) = Inl err \<Longrightarrow> instanceof_TimeoutError err \<Longrightarrow>
   send_loop rt request c = send_loop rt request (backoff err (snd (attempt_send rt request c)))"
  by (subst send_loop.simps) (simp add: attempt_send_eq)

lemma trace_backoff:
  "\<exists>evs. trace (backoff err (snd (attempt_send rt request c))) = trace c @ evs \<and>
         filter send_or_sleep evs = [Sent request, Slept 3000]"
  by (simp add: backoff_def attempt_send_eq sleep_def logger_def retryIntervalMs_def)

lemma sendCount_backoff:
  "sendCount (backoff err (snd (attempt_send rt request c))) = Suc (sendCount c)"
  by (simp add: backoff_def attempt_send_eq sleep_def logger_def sendCount_def)

text \<open>After \<open>k\<close> timeouts and an answer that is not one, the loop returns the answer.\<close>

lemma send_loop_returns:
  "(\<forall>i<k. timed_out (network rt (sendCount c + i))) \<Longrightarrow>
   \<not> timed_out (network rt (sendCount c + k)) \<Longrightarrow>
   \<exists>c' evs. send_loop rt request c = Some (settled_as (network rt (sendCount c + k)), c') \<and>
        trace c' = trace c @ evs \<and>
        filter send_or_sleep evs =
          concat (replicate k [Sent request, Slept 3000]) @ [Sent request]"
proof (induction k arbitrary: c)
  case 0
  then show ?case
    by (simp add: send_loop_done)
next
  case (Suc k)
  from Suc.prems(1) have "timed_out (network rt (sendCount c + 0))"
    by blast
  then have "timed_out (network rt (sendCount c))"
    by simp
  then obtain err where e: "network rt (sendCount c) = Inl err"
    and te: "instanceof_TimeoutError err"
    by (cases "network rt (sendCount c)") auto
  define c1 where "c1 = backoff err (snd (attempt_send rt request c))"
  have eq: "send_loop rt request c = send_loop rt request c1"
    unfolding c1_def by (rule send_loop_retry [OF e te])
  have n: "sendCount c1 = Suc (sendCount c)"
    unfolding c1_def by (rule sendCount_backoff)
  obtain evs where t: "trace c1 = trace c @ evs"
    and s: "filter send_or_sleep evs = [Sent request, Slept 3000]"
    unfolding c1_def using trace_backoff by blast
  have a: "\<forall>i<k. timed_out (network rt (sendCount c1 + i))"
  proof (intro allI impI)
    fix i
    assume "i < k"
    then have "Suc i < Suc k"
      by simp
    with Suc.prems(1) have "timed_out (network rt (sendCount c + Suc i))"
      by blast
    then show "timed_out (network rt (sendCount c1 + i))"
      by (simp add: n)
  qed
  have b: "\<not> timed_out (network rt (sendCount c1 + k))"
    using Suc.prems(2) by (simp add: n)
  from Suc.IH [OF a b]
  obtain c' evs'
    where r: "send_loop rt request c1 = Some (settled_as (network rt (sendCount c1 + k)), c')"
      and t': "trace c' = trace c1 @ evs'"
      and s': "filter send_or_sleep evs' =
                 concat (replicate k [Sent request, Slept 3000]) @ [Sent request]"
    by blast
  have "send_loop rt request c = Some (settled_as (network rt (sendCount c + Suc k)), c')"
    using r by (simp add: eq n)
  moreover have "trace c' = trace c @ (evs @ evs')"
    by (simp add: t t')
  moreover have "filter send_or_sleep (evs @ evs') =
                   concat (replicate (Suc k) [Sent request, Slept 3000]) @ [Sent request]"
    by (simp add: s s')
  ultimately show ?case
    by blast
qed

text \<open>A loop that returns has met an answer that is not a timeout.\<close>

lemma send_loop_never:
  assumes "send_loop rt request c = Some r"
  shows "\<exists>i. \<not> timed_out (network rt (sendCount c + i))"
proof (rule send_loop.raw_induct
    [where P = "\<lambda>rt request c r. \<exists>i. \<not> timed_out (network rt (sendCount c + i))", OF _ assms])
  fix f and rt :: runtime and request c and r :: "jsval promise \<times> client"
  assume IH: "\<And>rt request c r. f rt request c = Some r \<Longrightarrow>
                \<exists>i. \<not> timed_out (network rt (sendCount c + i))"
    and step: "(case attempt_send rt request c of
                  (Rejected err, c1) \<Rightarrow>
                    if instanceof_TimeoutError err then f rt request (backoff err c1)
                    else Some (Rejected err, c1)
                | (settled, c1) \<Rightarrow> Some (settled, c1)) = Some r"
  show "\<exists>i. \<not> timed_out (network rt (sendCount c + i))"
  proof (cases "timed_out (network rt (sendCount c))")
    case False
    then have "\<not> timed_out (network rt (sendCount c + 0))"
      by simp
    then show ?thesis
      by blast
  next
    case True
    then obtain err where e: "network rt (sendCount c) = Inl err"
      and te: "instanceof_TimeoutError err"
      by (cases "network rt (sendCount c)") auto
    define c1 where "c1 = backoff err (snd (attempt_send rt request c))"
    have "f rt request c1 = Some r"
      using step e te by (simp add: attempt_send_eq c1_def)
    from IH [OF this] obtain i where "\<not> timed_out (network rt (sendCount c1 + i))"
      by blast
    moreover have "sendCount c1 = Suc (sendCount c)"
      unfolding c1_def by (rule sendCount_backoff)
    ultimately have "\<not> timed_out (network rt (sendCount c + Suc i))"
      by simp
    then show ?thesis
      by blast
  qed
qed

text \<open>
  Claim C9. A call through \<^verbatim>\<open>#send\<close>, once \<^verbatim>\<open>#serverRPC\<close> is set: when the
  first \<open>k\<close> calls of the RPC layer reject with a \<^verbatim>\<open>TimeoutError\<close> and the next
  one does not, \<^verbatim>\<open>#send\<close> settles as that call does (it returns its response, or
  rejects with its error), after \<open>k + 1\<close> sends of the same request with a sleep of
  3000 ms after each of the first \<open>k\<close>; with \<open>k = 0\<close>, an error that is not a
  timeout is passed on after one send and no sleep. When every call times out,
  \<^verbatim>\<open>#send\<close> never returns.
\<close>

theorem send_retries_on_timeout:
  "serverRPC c \<longrightarrow>
     ((\<forall>i<k. timed_out (network rt (sendCount c + i))) \<and>
      \<not> timed_out (network rt (sendCount c + k)) \<longrightarrow>
        (\<exists>c'. send rt request c = Some (settled_as (network rt (sendCount c + k)), c') \<and>
              filter send_or_sleep (emitted c c') =
                concat (replicate k [Sent request, Slept 3000]) @ [Sent request])) \<and>
     ((\<forall>i. timed_out (network rt (sendCount c + i))) \<longrightarrow> send rt request c = None)"
proof (intro impI conjI)
  assume rpc: "serverRPC c"
    and "(\<forall>i<k. timed_out (network rt (sendCount c + i))) \<and>
         \<not> timed_out (network rt (sendCount c + k))"
  then have a: "\<forall>i<k. timed_out (network rt (sendCount c + i))"
    and b: "\<not> timed_out (network rt (sendCount c + k))"
    by blast+
  from send_loop_returns [OF a b, of request]
  obtain c' evs
    where r: "send_loop rt request c = Some (settled_as (network rt (sendCount c + k)), c')"
      and t: "trace c' = trace c @ evs"
      and s: "filter send_or_sleep evs =
                concat (replicate k [Sent request, Slept 3000]) @ [Sent request]"
    by blast
  have "emitted c c' = evs"
    by (simp add: emitted_def t)
  with r s rpc
  show "\<exists>c'. send rt request c = Some (settled_as (network rt (sendCount c + k)), c') \<and>
              filter send_or_sleep (emitted c c') =
                concat (replicate k [Sent request, Slept 3000]) @ [Sent request]"
    by (auto simp: send_def)
next
  assume rpc: "serverRPC c" and all: "\<forall>i. timed_out (network rt (sendCount c + i))"
  have "send_loop rt request c = None"
  proof (cases "send_loop rt request c")
    case None
    then show ?thesis .
  next
    case (Some r)
    from send_loop_never [OF this] all show ?thesis
      by blast
  qed
  with rpc show "send rt request c = None"
    by (simp add: send_def)
qed

text \<open>
  The registration request \<^verbatim>\<open>INITIALIZE_HOST_V2\<close> through an RPC layer that times
  out twice and then answers, and through one that never answers in time.
\<close>

theorem send_retries_on_timeout_witness:
  "(\<exists>c'. send (timing_out 2) (INITIALIZE_HOST_V2 JNull) (listening ''https://x/'') =
           Some (Fulfilled (JBool True), c') \<and>
         filter send_or_sleep (emitted (listening ''https://x/'') c') =
           [Sent (INITIALIZE_HOST_V2 JNull), Slept 3000,
            Sent (INITIALIZE_HOST_V2 JNull), Slept 3000,
            Sent (INITIALIZE_HOST_V2 JNull)]) \<and>
   send unreachable (INITIALIZE_HOST_V2 JNull) (listening ''https://x/'') = None"
proof -
  have two: "replicate 2 x = [x, x]" for x :: "event list"
    by (simp add: numeral_2_eq_2)
  have never: "\<forall>i. timed_out (network unreachable (sendCount (listening ''https://x/'') + i))"
    by (simp add: unreachable_def TimeoutError_def scenario_runtime_def)
  have twice: "(\<forall>i<2. timed_out (network (timing_out 2) (sendCount (listening ''https://x/'') + i)))
       \<and> \<not> timed_out (network (timing_out 2) (sendCount (listening ''https://x/'') + 2))"
    by (simp add: timing_out_def TimeoutError_def scenario_runtime_def listening_def
        sendCount_def)
  have rpc: "serverRPC (listening ''https://x/'')"
    by (simp add: listening_def)
  show ?thesis
    using never twice rpc
      send_retries_on_timeout
        [of "listening ''https://x/''" 2 "timing_out 2" "INITIALIZE_HOST_V2 JNull"]
      send_retries_on_timeout
        [of "listening ''https://x/''" 0 unreachable "INITIALIZE_HOST_V2 JNull"]
    by (simp add: two timing_out_def scenario_runtime_def listening_def sendCount_def)
qed

subsection \<open>What the handler of \<^verbatim>\<open>TRIGGER_WORKFLOW\<close> does\<close>

lemma sendCount_logger [simp]: "sendCount (logger l m c) = sendCount c"
  by (simp add: sendCount_def logger_def)

lemma timestamp_now_logger [simp]: "timestamp_now rt (logger l m c) = timestamp_now rt c"
  by (simp add: timestamp_now_def)

lemmas chain_defs =
  TRIGGER_WORKFLOW_def start_workflow_run_def promise_then_def promise_catch_def
  promise_resolve_def serverRPC_send_def invoke_run_def logger_def emitted_def announced_def
  timestamp_now_def sendCount_def run_started_def run_complete_def dashboard_link_def
  validation_error_def Let_def

text \<open>An event that fails the schema.\<close>

lemma trigger_invalid:
  "safeParse opts (trigger_input data) = Inl issues \<Longrightarrow>
   TRIGGER_WORKFLOW rt opts data c =
     (case network rt (sendCount c) of Inl err \<Rightarrow> Rejected err | Inr v \<Rightarrow> Fulfilled True,
      c\<lparr>trace := trace c @
         [Logged LevelDebug ''Handling TRIGGER_WORKFLOW'',
          Sent (SEND_WORKFLOW_ERROR (data_id data) (validation_error rt issues)
                  (timestamp_now rt c))]\<rparr>)"
  by (cases "network rt (sendCount c)") (simp_all add: chain_defs)

text \<open>An event that passes it: the five ways the run can go.\<close>

lemma trigger_start_rejected:
  "safeParse opts (trigger_input data) = Inr eventData \<Longrightarrow>
   network rt (sendCount c) = Inl err \<Longrightarrow>
   emitted c (snd (TRIGGER_WORKFLOW rt opts data c)) =
     announced rt c data @
     [Sent (START_WORKFLOW_RUN (data_id data) (timestamp_now rt c)),
      Sent (SEND_WORKFLOW_ERROR (data_id data) err (timestamp_at rt (Suc (sendCount c))))]"
  by (simp add: chain_defs)

lemma trigger_run_pending:
  "safeParse opts (trigger_input data) = Inr eventData \<Longrightarrow>
   network rt (sendCount c) = Inr started \<Longrightarrow>
   run opts eventData = Pending \<Longrightarrow>
   emitted c (snd (TRIGGER_WORKFLOW rt opts data c)) =
     announced rt c data @
     [Sent (START_WORKFLOW_RUN (data_id data) (timestamp_now rt c)), RunInvoked eventData]"
  by (simp add: chain_defs)

lemma trigger_run_rejected:
  "safeParse opts (trigger_input data) = Inr eventData \<Longrightarrow>
   network rt (sendCount c) = Inr started \<Longrightarrow>
   run opts eventData = Rejected v \<Longrightarrow>
   emitted c (snd (TRIGGER_WORKFLOW rt opts data c)) =
     announced rt c data @
     [Sent (START_WORKFLOW_RUN (data_id data) (timestamp_now rt c)), RunInvoked eventData,
      Sent (SEND_WORKFLOW_ERROR (data_id data) (parseAnyError v)
              (timestamp_at rt (Suc (sendCount c))))] @
     (case network rt (Suc (sendCount c)) of
        Inl err \<Rightarrow>
          [Sent (SEND_WORKFLOW_ERROR (data_id data) err
                   (timestamp_at rt (Suc (Suc (sendCount c)))))]
      | Inr sent \<Rightarrow> [])"
  by (cases "network rt (Suc (sendCount c))") (simp_all add: chain_defs)

lemma trigger_run_unserialisable:
  "safeParse opts (trigger_input data) = Inr eventData \<Longrightarrow>
   network rt (sendCount c) = Inr started \<Longrightarrow>
   run opts eventData = Fulfilled out \<Longrightarrow>
   JSON_stringify rt out = Inl thrown \<Longrightarrow>
   emitted c (snd (TRIGGER_WORKFLOW rt opts data c)) =
     announced rt c data @
     [Sent (START_WORKFLOW_RUN (data_id data) (timestamp_now rt c)), RunInvoked eventData,
      Logged LevelLog (run_complete rt c data),
      Sent (SEND_WORKFLOW_ERROR (data_id data) (parseAnyError thrown)
              (timestamp_at rt (Suc (sendCount c))))] @
     (case network rt (Suc (sendCount c)) of
        Inl err \<Rightarrow>
          [Sent (SEND_WORKFLOW_ERROR (data_id data) err
                   (timestamp_at rt (Suc (Suc (sendCount c)))))]
      | Inr sent \<Rightarrow> [])"
  by (cases "network rt (Suc (sendCount c))") (simp_all add: chain_defs)

lemma trigger_run_fulfilled:
  "safeParse opts (trigger_input data) = Inr eventData \<Longrightarrow>
   network rt (sendCount c) = Inr started \<Longrightarrow>
   run opts eventData = Fulfilled out \<Longrightarrow>
   JSON_stringify rt out = Inr s \<Longrightarrow>
   emitted c (snd (TRIGGER_WORKFLOW rt opts data c)) =
     announced rt c data @
     [Sent (START_WORKFLOW_RUN (data_id data) (timestamp_now rt c)), RunInvoked eventData,
      Logged LevelLog (run_complete rt c data),
      Sent (COMPLETE_WORKFLOW_RUN (data_id data) s (timestamp_at rt (Suc (sendCount c))))] @
     (case network rt (Suc (sendCount c)) of
        Inl err \<Rightarrow>
          Sent (SEND_WORKFLOW_ERROR (data_id data) (parseAnyError err)
                  (timestamp_at rt (Suc (Suc (sendCount c))))) #
          (case network rt (Suc (Suc (sendCount c))) of
             Inl err' \<Rightarrow>
               [Sent (SEND_WORKFLOW_ERROR (data_id data) err'
                        (timestamp_at rt (Suc (Suc (Suc (sendCount c))))))]
           | Inr sent \<Rightarrow> [])
      | Inr sent \<Rightarrow> [])"
  by (cases "network rt (Suc (sendCount c))"; cases "network rt (Suc (Suc (sendCount c)))")
     (simp_all add: chain_defs)

lemma not_invoked_announced: "\<forall>x\<in>set (announced rt c data). \<not> is_RunInvoked x"
  by (simp add: announced_def)

lemma RunInvoked_not_announced [simp]: "RunInvoked e \<notin> set (announced rt c data)"
  by (simp add: announced_def)


lemma started_not_complete: "run_started rt c data \<noteq> run_complete rt c' data"
  by (simp add: run_started_def run_complete_def)

lemma started_in_announced:
  "Logged LevelLog (run_started rt c data) \<in> set (announced rt c data) \<longleftrightarrow>
   attempt (meta data) = JNum 0"
  by (simp add: announced_def)

text \<open>
  Either the request \<^verbatim>\<open>START_WORKFLOW_RUN\<close> is answered, and the call of the
  user's function follows it at once and is the only one; or it is rejected, and the
  function is not called.
\<close>

lemma trigger_valid_shape:
  assumes valid: "safeParse opts (trigger_input data) = Inr eventData"
  shows "(\<exists>rest. emitted c (snd (TRIGGER_WORKFLOW rt opts data c)) =
             announced rt c data @
             Sent (START_WORKFLOW_RUN (data_id data) (timestamp_now rt c)) #
             RunInvoked eventData # rest \<and>
           (\<forall>x\<in>set rest. \<not> is_RunInvoked x) \<and>
           Logged LevelLog (run_started rt c data) \<notin> set rest) \<or>
         (\<exists>err ts. emitted c (snd (TRIGGER_WORKFLOW rt opts data c)) =
             announced rt c data @
             [Sent (START_WORKFLOW_RUN (data_id data) (timestamp_now rt c)),
              Sent (SEND_WORKFLOW_ERROR (data_id data) err ts)])"
proof (cases "network rt (sendCount c)")
  case (Inl err)
  from trigger_start_rejected [OF valid Inl] show ?thesis
    by blast
next
  case started: (Inr answer)
  show ?thesis
  proof (cases "run opts eventData")
    case Pending
    from trigger_run_pending [OF valid started Pending] show ?thesis
      by simp
  next
    case (Rejected v)
    from trigger_run_rejected [OF valid started Rejected] show ?thesis
      by (cases "network rt (Suc (sendCount c))") simp_all
  next
    case (Fulfilled out)
    show ?thesis
    proof (cases "JSON_stringify rt out")
      case (Inl thrown)
      from trigger_run_unserialisable [OF valid started Fulfilled Inl] show ?thesis
        by (cases "network rt (Suc (sendCount c))") (simp_all add: started_not_complete)
    next
      case (Inr s)
      from trigger_run_fulfilled [OF valid started Fulfilled Inr] show ?thesis
        by (cases "network rt (Suc (sendCount c))";
            cases "network rt (Suc (Suc (sendCount c)))")
           (simp_all add: started_not_complete)
    qed
  qed
qed

text \<open>Splitting a trace at a call of the user's function.\<close>

lemma split_at_invocation:
  assumes eq: "pre @ RunInvoked e # post = before @ Sent m # RunInvoked e' # rest"
    and b: "\<forall>x\<in>set before. \<not> is_RunInvoked x"
  shows "Sent m \<in> set pre"
proof -
  let ?P = "\<lambda>x. \<not> is_RunInvoked x"
  have "takeWhile ?P (before @ Sent m # RunInvoked e' # rest) = before @ [Sent m]"
    using b by (simp add: takeWhile_append2)
  then have "Sent m \<in> set (takeWhile ?P (pre @ RunInvoked e # post))"
    by (simp add: eq)
  moreover have "set (takeWhile ?P (pre @ RunInvoked e # post)) \<subseteq> set pre"
  proof (cases "\<forall>x\<in>set pre. ?P x")
    case True
    then show ?thesis
      by (simp add: takeWhile_append2)
  next
    case False
    then obtain x where "x \<in> set pre" "\<not> ?P x"
      by blast
    then have "takeWhile ?P (pre @ RunInvoked e # post) = takeWhile ?P pre"
      by (rule takeWhile_append1)
    then show ?thesis
      using set_takeWhileD by fastforce
  qed
  ultimately show ?thesis
    by blast
qed

lemma no_invocation:
  "pre @ RunInvoked e # post = evs \<Longrightarrow> \<forall>x\<in>set evs. \<not> is_RunInvoked x \<Longrightarrow> False"
  by auto

text \<open>
  Claim C8. For every run whose event passes the schema: wherever the user's function
  is called in what the handler does, the request \<^verbatim>\<open>START_WORKFLOW_RUN\<close> of the
  run has been sent before; and the line \<^verbatim>\<open>Run <id> started\<close> with the link to
  the dashboard is written to the log exactly when the attempt number of the run is
  the number 0. (The line \<^verbatim>\<open>Run <id> complete\<close>, written when the function has
  returned, carries the same link on every attempt; the claim is about the line that
  goes with the start.)
\<close>

theorem start_is_sent_before_the_run:
  assumes valid: "safeParse opts (trigger_input data) = Inr eventData"
  shows "(\<forall>pre e post.
            emitted c (snd (TRIGGER_WORKFLOW rt opts data c)) = pre @ RunInvoked e # post \<longrightarrow>
            Sent (START_WORKFLOW_RUN (data_id data) (timestamp_now rt c)) \<in> set pre) \<and>
         (Logged LevelLog (run_started rt c data)
            \<in> set (emitted c (snd (TRIGGER_WORKFLOW rt opts data c))) \<longleftrightarrow>
          attempt (meta data) = JNum 0)"
proof -
  let ?evs = "emitted c (snd (TRIGGER_WORKFLOW rt opts data c))"
  let ?start = "Sent (START_WORKFLOW_RUN (data_id data) (timestamp_now rt c))"
  note shape = trigger_valid_shape [OF valid, of c rt]
  have first: "?start \<in> set pre" if split: "?evs = pre @ RunInvoked e # post" for pre e post
    using shape
  proof (elim disjE exE conjE)
    fix rest
    assume "?evs = announced rt c data @ ?start # RunInvoked eventData # rest"
    with split have "pre @ RunInvoked e # post =
        announced rt c data @ ?start # RunInvoked eventData # rest"
      by simp
    then show ?thesis
      by (rule split_at_invocation) (rule not_invoked_announced)
  next
    fix err ts
    assume "?evs = announced rt c data @
                      [?start, Sent (SEND_WORKFLOW_ERROR (data_id data) err ts)]"
    with split have "pre @ RunInvoked e # post =
        announced rt c data @ [?start, Sent (SEND_WORKFLOW_ERROR (data_id data) err ts)]"
      by simp
    then have False
      by (rule no_invocation) (simp add: not_invoked_announced)
    then show ?thesis ..
  qed
  have line: "Logged LevelLog (run_started rt c data) \<in> set ?evs \<longleftrightarrow>
              attempt (meta data) = JNum 0"
    using shape started_in_announced [of rt c data] by auto
  from first line show ?thesis
    by blast
qed

text \<open>
  The first scenario of the specification: run \<^verbatim>\<open>r1\<close>, attempt 0, event
  \<^verbatim>\<open>{n: 1}\<close>, and a function that returns \<^verbatim>\<open>{ok: true}\<close>.
\<close>

lemmas workflow_defs =
  scenario_defs scenario_stringify_def workflow_ok_def workflow_throwing_def
  number_schema_def timing_out_def dropping_def TimeoutError_def

lemmas eval_defs = chain_defs timestamp_at_def highPrecisionTimestamp_def String_of.simps

theorem start_is_sent_before_the_run_witness:
  "safeParse workflow_ok (trigger_input run_r1) = Inr (JObj [(''n'', JNum 1)]) \<and>
   emitted (listening ''https://x'')
     (snd (TRIGGER_WORKFLOW scenario_runtime workflow_ok run_r1 (listening ''https://x''))) =
     (announced scenario_runtime (listening ''https://x'') run_r1 @
        [Sent (START_WORKFLOW_RUN ''r1'' ''0'')]) @
     RunInvoked (JObj [(''n'', JNum 1)]) #
     [Logged LevelLog (run_complete scenario_runtime (listening ''https://x'') run_r1),
      Sent (COMPLETE_WORKFLOW_RUN ''r1'' (Some ''{\"ok\":true}'') ''1000000000'')] \<and>
   Sent (START_WORKFLOW_RUN ''r1'' (timestamp_now scenario_runtime (listening ''https://x'')))
     \<in> set (announced scenario_runtime (listening ''https://x'') run_r1 @
              [Sent (START_WORKFLOW_RUN ''r1'' ''0'')]) \<and>
   Logged LevelLog (run_started scenario_runtime (listening ''https://x'') run_r1)
     \<in> set (emitted (listening ''https://x'')
         (snd (TRIGGER_WORKFLOW scenario_runtime workflow_ok run_r1 (listening ''https://x''))))"
proof -
  have valid: "safeParse workflow_ok (trigger_input run_r1) = Inr (JObj [(''n'', JNum 1)])"
    by (simp add: workflow_defs)
  have evs: "emitted (listening ''https://x'')
     (snd (TRIGGER_WORKFLOW scenario_runtime workflow_ok run_r1 (listening ''https://x''))) =
     (announced scenario_runtime (listening ''https://x'') run_r1 @
        [Sent (START_WORKFLOW_RUN ''r1'' ''0'')]) @
     RunInvoked (JObj [(''n'', JNum 1)]) #
     [Logged LevelLog (run_complete scenario_runtime (listening ''https://x'') run_r1),
      Sent (COMPLETE_WORKFLOW_RUN ''r1'' (Some ''{\"ok\":true}'') ''1000000000'')]"
    by (simp add: workflow_defs eval_defs)
  have zero: "attempt (meta run_r1) = JNum 0"
    by (simp add: run_r1_def)
  have r1: "data_id run_r1 = ''r1''"
    by (simp add: run_r1_def)
  note claim = start_is_sent_before_the_run
    [OF valid, of "listening ''https://x''" scenario_runtime]
  from claim [unfolded r1] evs
  have first: "Sent (START_WORKFLOW_RUN ''r1''
                 (timestamp_now scenario_runtime (listening ''https://x'')))
     \<in> set (announced scenario_runtime (listening ''https://x'') run_r1 @
              [Sent (START_WORKFLOW_RUN ''r1'' ''0'')])"
    by blast
  from claim zero
  have line: "Logged LevelLog (run_started scenario_runtime (listening ''https://x'') run_r1)
     \<in> set (emitted (listening ''https://x'')
         (snd (TRIGGER_WORKFLOW scenario_runtime workflow_ok run_r1 (listening ''https://x''))))"
    by blast
  from valid evs first line show ?thesis
    by (intro conjI)
qed

subsection \<open>The error that reports a throw\<close>






subsection \<open>The request that ends a run\<close>




subsection \<open>An event that fails the schema\<close>

text \<open>
  Claim C2, as the specification states it, fails: the handler awaits the request
  \<^verbatim>\<open>SEND_WORKFLOW_ERROR\<close>, so when the RPC layer rejects that request (here: it
  times out) the handler is rejected with the same error and does not return
  \<^verbatim>\<open>true\<close>.
\<close>

theorem invalid_event_not_acknowledged:
  "safeParse workflow_ok (trigger_input (run_r1\<lparr>trigger_input := JObj [(''n'', JStr ''x'')]\<rparr>)) =
     Inl [JStr ''Expected number''] \<and>
   fst (TRIGGER_WORKFLOW (dropping 0) workflow_ok
          (run_r1\<lparr>trigger_input := JObj [(''n'', JStr ''x'')]\<rparr>) (listening ''https://x'')) =
     Rejected TimeoutError"
  by (simp add: workflow_defs eval_defs)

text \<open>
  Claim C2, amended. For every \<^verbatim>\<open>TRIGGER_WORKFLOW\<close> message whose event fails the
  schema, the handler writes its debug line and sends exactly one request,
  \<^verbatim>\<open>SEND_WORKFLOW_ERROR\<close>, whose error has the name
  \<^verbatim>\<open>Event validation error\<close> and the flattened validation message; it sends no
  \<^verbatim>\<open>START_WORKFLOW_RUN\<close> and does not call the user's function. It returns
  \<^verbatim>\<open>true\<close> when that request is answered, and is rejected with the error of the
  RPC layer when the request is rejected.
\<close>

theorem invalid_event_is_reported:
  assumes "safeParse opts (trigger_input data) = Inl issues"
  shows "emitted c (snd (TRIGGER_WORKFLOW rt opts data c)) =
           [Logged LevelDebug ''Handling TRIGGER_WORKFLOW'',
            Sent (SEND_WORKFLOW_ERROR (data_id data)
                    (JObj [(''name'', JStr ''Event validation error''),
                           (''message'',
                            JStr (generateErrorMessage rt issues zodErrorMessageOptions))])
                    (timestamp_now rt c))] \<and>
         fst (TRIGGER_WORKFLOW rt opts data c) =
           (case network rt (sendCount c) of
              Inr answered \<Rightarrow> Fulfilled True
            | Inl err \<Rightarrow> Rejected err)"
  using trigger_invalid [OF assms, of rt c]
  by (cases "network rt (sendCount c)") (simp_all add: emitted_def validation_error_def)

text \<open>The second scenario of the specification: the event \<^verbatim>\<open>{n: "x"}\<close>.\<close>

theorem invalid_event_is_reported_witness:
  "safeParse workflow_ok (trigger_input (run_r1\<lparr>trigger_input := JObj [(''n'', JStr ''x'')]\<rparr>)) =
     Inl [JStr ''Expected number''] \<and>
   emitted (listening ''https://x'')
     (snd (TRIGGER_WORKFLOW scenario_runtime workflow_ok
            (run_r1\<lparr>trigger_input := JObj [(''n'', JStr ''x'')]\<rparr>) (listening ''https://x''))) =
     [Logged LevelDebug ''Handling TRIGGER_WORKFLOW'',
      Sent (SEND_WORKFLOW_ERROR ''r1''
              (JObj [(''name'', JStr ''Event validation error''),
                     (''message'', JStr ''Expected number'')]) ''0'')] \<and>
   fst (TRIGGER_WORKFLOW scenario_runtime workflow_ok
          (run_r1\<lparr>trigger_input := JObj [(''n'', JStr ''x'')]\<rparr>) (listening ''https://x'')) =
     Fulfilled True"
proof -
  have invalid: "safeParse workflow_ok
       (trigger_input (run_r1\<lparr>trigger_input := JObj [(''n'', JStr ''x'')]\<rparr>)) =
     Inl [JStr ''Expected number'']"
    by (simp add: workflow_defs)
  from invalid_event_is_reported
    [OF invalid, of "listening ''https://x''" scenario_runtime] invalid
  show ?thesis
    by (simp add: workflow_defs timestamp_now_def timestamp_at_def sendCount_def
        highPrecisionTimestamp_def String_of.simps)
qed

subsection \<open>The body that \<^verbatim>\<open>fetch\<close> returns\<close>

lemmas operation_defs =
  promise_then_def promise_resolve_def promise_reject_def awaiting_def deliver_def
  serverRPC_send_def logger_def settle_def promise_state_def promise_set_def emitted_def
  timestamp_now_def sendCount_def invoke_callback_def

text \<open>
  Claim C4, as the specification states it, fails on a body that is falsy. Without a
  schema the body \<^verbatim>\<open>0\<close> is not returned as it is: the caller gets
  \<^verbatim>\<open>undefined\<close>. With the schema \<^verbatim>\<open>z.number()\<close> the body \<^verbatim>\<open>0\<close>
  conforms and parses to \<^verbatim>\<open>0\<close>, and the caller gets \<^verbatim>\<open>undefined\<close>; the
  body \<^verbatim>\<open>null\<close> does not conform, and the call does not reject.
\<close>

theorem falsy_body_is_dropped:
  "fst (fetchFunction scenario_runtime run_r1 ''f1'' ''https://api/'' no_options
          [RESOLVE_FETCH_REQUEST ''r1'' ''f1'' (reply_with (JNum 0))] (listening ''https://x'')) =
     Fulfilled (reply_with JUndefined) \<and>
   z_number (JNum 0) = Inr (JNum 0) \<and>
   fst (fetchFunction scenario_runtime run_r1 ''f1'' ''https://api/''
          (no_options\<lparr>responseSchema := Some z_number\<rparr>)
          [RESOLVE_FETCH_REQUEST ''r1'' ''f1'' (reply_with (JNum 0))] (listening ''https://x'')) =
     Fulfilled (reply_with JUndefined) \<and>
   z_number JNull = Inl (JError ''ZodError'' ''ZodError'' ''Expected number'' None) \<and>
   fst (fetchFunction scenario_runtime run_r1 ''f1'' ''https://api/''
          (no_options\<lparr>responseSchema := Some z_number\<rparr>)
          [RESOLVE_FETCH_REQUEST ''r1'' ''f1'' (reply_with JNull)] (listening ''https://x'')) =
     Fulfilled (reply_with JUndefined)"
  by (simp add: fetchFunction_def fetchCallbacks_set_def operation_defs scenario_defs
      no_options_def z_number_def reply_with_def messageKey_def)

text \<open>
  Claim C4, amended. For every \<^verbatim>\<open>fetch\<close> whose request \<^verbatim>\<open>SEND_FETCH\<close> is
  answered and which the server resolves with a response: when the body of the
  response is truthy, the call returns the response as it is if no
  \<^verbatim>\<open>responseSchema\<close> was given, returns it with the parsed body if the body
  conforms to the schema, and rejects with the error of the schema if it does not;
  when the body is falsy (\<^verbatim>\<open>undefined\<close>, \<^verbatim>\<open>null\<close>, \<^verbatim>\<open>false\<close>,
  \<^verbatim>\<open>0\<close>, the empty string), the call returns the response with the body
  \<^verbatim>\<open>undefined\<close>, whatever the schema. In every case that returns,
  \<^verbatim>\<open>status\<close>, \<^verbatim>\<open>ok\<close> and \<^verbatim>\<open>headers\<close> are those of the response.
\<close>

theorem fetch_returns_the_body:
  assumes "network rt (sendCount c) = Inr answered"
  shows "fst (fetchFunction rt data k u options
                [RESOLVE_FETCH_REQUEST (data_id data) k response] c) =
           (if truthy (body response)
            then (case responseSchema options of
                    None \<Rightarrow> Fulfilled response
                  | Some schema \<Rightarrow>
                      (case schema (body response) of
                         Inr parsed \<Rightarrow> Fulfilled (response\<lparr>body := parsed\<rparr>)
                       | Inl err \<Rightarrow> Rejected err))
            else Fulfilled (response\<lparr>body := JUndefined\<rparr>))"
  using assms
  by (simp add: fetchFunction_def fetchCallbacks_set_def operation_defs z_any_def
      split: option.splits sum.splits)

text \<open>A fetch in run \<^verbatim>\<open>r1\<close> that the server resolves with the body
  \<^verbatim>\<open>42\<close>, read through \<^verbatim>\<open>z.number()\<close>.\<close>

theorem fetch_returns_the_body_witness:
  "network scenario_runtime (sendCount (listening ''https://x'')) = Inr (JBool True) \<and>
   fst (fetchFunction scenario_runtime run_r1 ''f1'' ''https://api/''
          (no_options\<lparr>responseSchema := Some z_number\<rparr>)
          [RESOLVE_FETCH_REQUEST ''r1'' ''f1'' (reply_with (JNum 42))] (listening ''https://x'')) =
     Fulfilled (reply_with (JNum 42))"
proof -
  have answered: "network scenario_runtime (sendCount (listening ''https://x'')) =
                  Inr (JBool True)"
    by (simp add: scenario_runtime_def)
  have r1: "data_id run_r1 = ''r1''"
    by (simp add: run_r1_def)
  from fetch_returns_the_body
    [OF answered, of run_r1 "''f1''" "''https://api/''"
        "no_options\<lparr>responseSchema := Some z_number\<rparr>" "reply_with (JNum 42)"]
    answered
  show ?thesis
    by (simp add: r1 no_options_def z_number_def reply_with_def)
qed

subsection \<open>\<^verbatim>\<open>runOnce\<close>\<close>

text \<open>
  Claim C3, as the specification states it, fails: \<^verbatim>\<open>runOnce\<close> awaits the
  request \<^verbatim>\<open>COMPLETE_RUN_ONCE\<close> before it returns, so when that request is
  rejected (here: it times out) the caller does not get the result of the callback
  but the error of the RPC layer.
\<close>

theorem callback_result_not_returned:
  "fst (runOnce (dropping 1) run_r1 ''k'' (\<lambda>i. Fulfilled (JObj [(''v'', JNum 42)]))
          [RESOLVE_RUN_ONCE ''r1'' ''k''
             \<lparr>idempotencyKey = ''i'', hasRun = False, run_output = JUndefined\<rparr>]
          (listening ''https://x'')) =
     Rejected TimeoutError"
  by (simp add: runOnce_def runOnceCallbacks_set_def operation_defs workflow_defs messageKey_def)

text \<open>
  Claim C3, amended. For every call \<^verbatim>\<open>runOnce(key, callback)\<close> whose request
  \<^verbatim>\<open>INITIALIZE_RUN_ONCE\<close> is answered and to which the server replies
  \<^verbatim>\<open>{idempotencyKey, hasRun, output}\<close>: when \<^verbatim>\<open>hasRun\<close> is true, the call
  returns the stored output, the callback is not called and no
  \<^verbatim>\<open>COMPLETE_RUN_ONCE\<close> is sent. When \<^verbatim>\<open>hasRun\<close> is false, the callback is
  called exactly once, with the \<^verbatim>\<open>idempotencyKey\<close> of the reply; if it throws,
  or never returns, or \<^verbatim>\<open>JSON.stringify\<close> throws on a truthy result, nothing
  more is sent and the call ends as that does; if it returns \<open>r\<close>, one
  \<^verbatim>\<open>COMPLETE_RUN_ONCE\<close> is sent, whose output is \<^verbatim>\<open>JSON.stringify(r)\<close> for
  a truthy \<open>r\<close> and \<^verbatim>\<open>undefined\<close> for a falsy one, and the call returns \<open>r\<close>
  when that request is answered and is rejected with its error when it is rejected.
\<close>

theorem runOnce_runs_the_callback_once:
  assumes "network rt (sendCount c) = Inr answered"
  shows
    "(let R = runOnce rt data k callback [RESOLVE_RUN_ONCE (data_id data) k reply] c;
          i = idempotencyKey reply;
          init = [CallbacksSet RunOnceCallbacks (messageKey (data_id data) k),
                  Sent (INITIALIZE_RUN_ONCE (data_id data) k REMOTE (timestamp_now rt c)),
                  Logged LevelDebug ''Handling RESOLVE_RUN_ONCE'']
      in (hasRun reply \<longrightarrow>
            fst R = Fulfilled (run_output reply) \<and> emitted c (snd R) = init) \<and>
         (\<not> hasRun reply \<longrightarrow>
            (case callback i of
               Pending \<Rightarrow> fst R = Pending \<and> emitted c (snd R) = init @ [CallbackInvoked i]
             | Rejected err \<Rightarrow>
                 fst R = Rejected err \<and> emitted c (snd R) = init @ [CallbackInvoked i]
             | Fulfilled r \<Rightarrow>
                 (case (if truthy r then JSON_stringify rt r else Inr None) of
                    Inl thrown \<Rightarrow>
                      fst R = Rejected thrown \<and>
                      emitted c (snd R) = init @ [CallbackInvoked i]
                  | Inr out \<Rightarrow>
                      emitted c (snd R) =
                        init @
                        [CallbackInvoked i,
                         Sent (COMPLETE_RUN_ONCE (data_id data) k i out
                                 (timestamp_at rt (Suc (sendCount c))))] \<and>
                      fst R =
                        (case network rt (Suc (sendCount c)) of
                           Inr completed \<Rightarrow> Fulfilled r
                         | Inl err \<Rightarrow> Rejected err)))))"
  using assms
  by (simp add: runOnce_def runOnceCallbacks_set_def operation_defs Let_def
      split: promise.splits sum.splits)

text \<open>
  The sixth scenario of the specification: the server replies
  \<^verbatim>\<open>{idempotencyKey: "i", hasRun: true, output: {v: 42}}\<close>.
\<close>

theorem runOnce_runs_the_callback_once_witness:
  "network scenario_runtime (sendCount (listening ''https://x'')) = Inr (JBool True) \<and>
   hasRun \<lparr>idempotencyKey = ''i'', hasRun = True, run_output = JObj [(''v'', JNum 42)]\<rparr> \<and>
   fst (runOnce scenario_runtime run_r1 ''k'' (\<lambda>i. Fulfilled JNull)
          [RESOLVE_RUN_ONCE ''r1'' ''k''
             \<lparr>idempotencyKey = ''i'', hasRun = True, run_output = JObj [(''v'', JNum 42)]\<rparr>]
          (listening ''https://x'')) =
     Fulfilled (JObj [(''v'', JNum 42)]) \<and>
   emitted (listening ''https://x'')
     (snd (runOnce scenario_runtime run_r1 ''k'' (\<lambda>i. Fulfilled JNull)
          [RESOLVE_RUN_ONCE ''r1'' ''k''
             \<lparr>idempotencyKey = ''i'', hasRun = True, run_output = JObj [(''v'', JNum 42)]\<rparr>]
          (listening ''https://x''))) =
     [CallbacksSet RunOnceCallbacks ''r1:k'',
      Sent (INITIALIZE_RUN_ONCE ''r1'' ''k'' REMOTE ''0''),
      Logged LevelDebug ''Handling RESOLVE_RUN_ONCE'']"
proof -
  have answered: "network scenario_runtime (sendCount (listening ''https://x'')) =
                  Inr (JBool True)"
    by (simp add: scenario_runtime_def)
  have r1: "data_id run_r1 = ''r1''"
    by (simp add: run_r1_def)
  have ts: "timestamp_now scenario_runtime (listening ''https://x'') = ''0''"
    by (simp add: workflow_defs timestamp_now_def timestamp_at_def sendCount_def
        highPrecisionTimestamp_def String_of.simps)
  from runOnce_runs_the_callback_once
    [OF answered, of run_r1 "''k''" "\<lambda>i. Fulfilled JNull"
        "\<lparr>idempotencyKey = ''i'', hasRun = True, run_output = JObj [(''v'', JNum 42)]\<rparr>"]
    answered
  show ?thesis
    by (simp add: Let_def r1 ts messageKey_def)
qed

end
